theory Spec2Isabelle
  imports Complex_Main
begin

section \<open>Code graph extractor: block boundaries\<close>

text \<open>
  The extractor of \<^verbatim>\<open>tools/code_graph_extractor/extractor.py\<close> finds the end of a
  declaration's block by counting braces. \<^verbatim>\<open>_find_block_end\<close> (TypeScript and
  JavaScript) counts every brace; \<^verbatim>\<open>_find_java_block_end\<close> also tracks string and
  character literals and backslash escapes. Both loop over the lines from
  \<^verbatim>\<open>start_line\<close> (0-indexed) and over the characters of each line, return the
  1-indexed line of the closing brace from inside the inner loop, and return
  \<^verbatim>\<open>len(lines)\<close> when the loops run out.
\<close>

datatype ('r, 's) loop = Return 'r | Next 's

fun find_block_end_chars :: "int \<Rightarrow> bool \<Rightarrow> string \<Rightarrow> (unit, int \<times> bool) loop" where
  "find_block_end_chars brace_count started [] = Next (brace_count, started)"
| "find_block_end_chars brace_count started (c # cs) =
     (if c = CHR ''{'' then find_block_end_chars (brace_count + 1) True cs
      else if c = CHR ''}'' then
        (if started \<and> brace_count - 1 = 0 then Return ()
         else find_block_end_chars (brace_count - 1) started cs)
      else find_block_end_chars brace_count started cs)"

fun find_block_end_lines :: "nat \<Rightarrow> int \<Rightarrow> bool \<Rightarrow> string list \<Rightarrow> nat option" where
  "find_block_end_lines i brace_count started [] = None"
| "find_block_end_lines i brace_count started (line # rest) =
     (case find_block_end_chars brace_count started line of
        Return _ \<Rightarrow> Some (i + 1)
      | Next (brace_count', started') \<Rightarrow> find_block_end_lines (i + 1) brace_count' started' rest)"

definition find_block_end :: "string list \<Rightarrow> nat \<Rightarrow> nat" where
  "find_block_end lines start_line =
     (case find_block_end_lines start_line 0 False (drop start_line lines) of
        Some r \<Rightarrow> r
      | None \<Rightarrow> length lines)"

record scan_state =
  brace_count :: int
  started :: bool
  in_string :: bool
  in_char :: bool
  escape_next :: bool

fun find_java_block_end_chars :: "scan_state \<Rightarrow> string \<Rightarrow> (unit, scan_state) loop" where
  "find_java_block_end_chars s [] = Next s"
| "find_java_block_end_chars s (c # cs) =
     (if escape_next s then find_java_block_end_chars (s\<lparr>escape_next := False\<rparr>) cs
      else if c = CHR 0x5C then find_java_block_end_chars (s\<lparr>escape_next := True\<rparr>) cs
      else if c = CHR 0x22 \<and> \<not> in_char s then
        find_java_block_end_chars (s\<lparr>in_string := \<not> in_string s\<rparr>) cs
      else if c = CHR 0x27 \<and> \<not> in_string s then
        find_java_block_end_chars (s\<lparr>in_char := \<not> in_char s\<rparr>) cs
      else if in_string s \<or> in_char s then find_java_block_end_chars s cs
      else if c = CHR ''{'' then
        find_java_block_end_chars (s\<lparr>brace_count := brace_count s + 1, started := True\<rparr>) cs
      else if c = CHR ''}'' then
        (if started s \<and> brace_count s - 1 = 0 then Return ()
         else find_java_block_end_chars (s\<lparr>brace_count := brace_count s - 1\<rparr>) cs)
      else find_java_block_end_chars s cs)"

fun find_java_block_end_lines :: "nat \<Rightarrow> scan_state \<Rightarrow> string list \<Rightarrow> nat option" where
  "find_java_block_end_lines i s [] = None"
| "find_java_block_end_lines i s (line # rest) =
     (case find_java_block_end_chars s line of
        Return _ \<Rightarrow> Some (i + 1)
      | Next s' \<Rightarrow> find_java_block_end_lines (i + 1) s' rest)"

definition scan_init :: scan_state where
  "scan_init = \<lparr>brace_count = 0, started = False, in_string = False, in_char = False,
     escape_next = False\<rparr>"

definition find_java_block_end :: "string list \<Rightarrow> nat \<Rightarrow> nat" where
  "find_java_block_end lines start_line =
     (case find_java_block_end_lines start_line scan_init (drop start_line lines) of
        Some r \<Rightarrow> r
      | None \<Rightarrow> length lines)"


subsection \<open>The block end as the specification words it\<close>

text \<open>
  The specification speaks of a depth counter over the scanned characters: the block
  ends at the line where the depth returns to zero after having been positive, and at the
  last line when that never happens. The characters are tagged with their line index;
  \<open>depth\<close> of a prefix is the number of opening minus the number of closing braces
  in it. For the quote-aware resolver the characters inside single- or double-quoted
  literals, the quotes themselves and backslash escapes are left out first.
\<close>

fun tag_lines :: "nat \<Rightarrow> string list \<Rightarrow> (nat \<times> char) list" where
  "tag_lines i [] = []"
| "tag_lines i (line # rest) = map (Pair i) line @ tag_lines (i + 1) rest"

definition depth :: "(nat \<times> char) list \<Rightarrow> int" where
  "depth ts = int (length (filter (\<lambda>t. snd t = CHR ''{'') ts))
            - int (length (filter (\<lambda>t. snd t = CHR ''}'') ts))"

definition closes_block :: "(nat \<times> char) list \<Rightarrow> nat \<Rightarrow> bool" where
  "closes_block ts k \<longleftrightarrow> 0 < depth (take k ts) \<and> depth (take (Suc k) ts) = 0"

definition spec_block_end :: "(nat \<times> char) list \<Rightarrow> nat \<Rightarrow> nat" where
  "spec_block_end ts last_line =
     (case List.find (closes_block ts) [0..<length ts] of
        Some k \<Rightarrow> fst (ts ! k) + 1
      | None \<Rightarrow> last_line)"

record lex_state =
  lex_in_string :: bool
  lex_in_char :: bool
  lex_escaped :: bool

fun outside_literals :: "lex_state \<Rightarrow> (nat \<times> char) list \<Rightarrow> (nat \<times> char) list" where
  "outside_literals q [] = []"
| "outside_literals q (t # ts) =
     (if lex_escaped q then outside_literals (q\<lparr>lex_escaped := False\<rparr>) ts
      else if snd t = CHR 0x5C then outside_literals (q\<lparr>lex_escaped := True\<rparr>) ts
      else if snd t = CHR 0x22 \<and> \<not> lex_in_char q then
        outside_literals (q\<lparr>lex_in_string := \<not> lex_in_string q\<rparr>) ts
      else if snd t = CHR 0x27 \<and> \<not> lex_in_string q then
        outside_literals (q\<lparr>lex_in_char := \<not> lex_in_char q\<rparr>) ts
      else if lex_in_string q \<or> lex_in_char q then outside_literals q ts
      else t # outside_literals q ts)"

definition lex_init :: lex_state where
  "lex_init = \<lparr>lex_in_string = False, lex_in_char = False, lex_escaped = False\<rparr>"

text \<open>A counting scan over tagged characters: the common core of both resolvers.\<close>

fun first_close :: "int \<Rightarrow> bool \<Rightarrow> (nat \<times> char) list \<Rightarrow> nat option" where
  "first_close b st [] = None"
| "first_close b st (t # ts) =
     (if snd t = CHR ''{'' then first_close (b + 1) True ts
      else if snd t = CHR ''}'' then
        (if st \<and> b - 1 = 0 then Some (fst t + 1) else first_close (b - 1) st ts)
      else first_close b st ts)"

definition closes_from :: "int \<Rightarrow> (nat \<times> char) list \<Rightarrow> nat \<Rightarrow> bool" where
  "closes_from b ts k \<longleftrightarrow> 0 < b + depth (take k ts) \<and> b + depth (take (Suc k) ts) = 0"

section \<open>Data model\<close>

record CodeNode =
  node_id :: string
  node_kind :: string
  node_name :: string
  node_file_path :: string
  node_line_start :: nat
  node_line_end :: nat
  node_signature :: "string option"
  node_language :: "string option"
  node_visibility :: "string option"
  node_hash :: "string option"

record CodeEdge =
  from_id :: string
  to_id :: string
  edge_kind :: string
  edge_line_number :: "nat option"
  confidence :: rat

record ExtractionResult =
  nodes :: "CodeNode list"
  edges :: "CodeEdge list"
  result_file_path :: string
  file_hash :: string
  result_language :: string
  errors :: "string list"

definition SUPPORTED_EXTENSIONS :: "(string \<times> string) list" where
  "SUPPORTED_EXTENSIONS =
     [(''.ts'', ''typescript''), (''.tsx'', ''typescript''), (''.js'', ''javascript''),
      (''.jsx'', ''javascript''), (''.py'', ''python''), (''.go'', ''go''),
      (''.java'', ''java'')]"

definition IGNORED_DIRS :: "string list" where
  "IGNORED_DIRS =
     [''node_modules'', ''.git'', ''__pycache__'', ''.venv'', ''venv'', ''dist'', ''build'',
      ''.next'', ''coverage'']"

section \<open>Strings and paths\<close>

definition py_isspace :: "char \<Rightarrow> bool" where
  "py_isspace c \<longleftrightarrow>
     of_char c \<in> {9, 10, 11, 12, 13, 28, 29, 30, 31, 32, 133, 160 :: nat}"

definition lstrip :: "string \<Rightarrow> string" where
  "lstrip s = dropWhile py_isspace s"

definition strip :: "string \<Rightarrow> string" where
  "strip s = rev (dropWhile py_isspace (rev (dropWhile py_isspace s)))"

fun startswith :: "string \<Rightarrow> string \<Rightarrow> bool" where
  "startswith s [] = True"
| "startswith [] (p # ps) = False"
| "startswith (c # cs) (p # ps) = (c = p \<and> startswith cs ps)"

definition endswith :: "string \<Rightarrow> string \<Rightarrow> bool" where
  "endswith s p = startswith (rev s) (rev p)"

fun str_contains :: "string \<Rightarrow> string \<Rightarrow> bool" where
  "str_contains [] sub = (sub = [])"
| "str_contains (c # cs) sub = (startswith (c # cs) sub \<or> str_contains cs sub)"

fun split_on :: "char \<Rightarrow> string \<Rightarrow> string list" where
  "split_on d [] = [[]]"
| "split_on d (c # cs) =
     (if c = d then [] # split_on d cs
      else (case split_on d cs of
              w # ws \<Rightarrow> (c # w) # ws
            | [] \<Rightarrow> [[c]]))"

definition lower_char :: "char \<Rightarrow> char" where
  "lower_char c =
     (if 65 \<le> (of_char c :: nat) \<and> (of_char c :: nat) \<le> 90
      then char_of ((of_char c :: nat) + 32) else c)"

definition lower :: "string \<Rightarrow> string" where
  "lower s = map lower_char s"

definition basename :: "string \<Rightarrow> string" where
  "basename p = rev (takeWhile (\<lambda>c. c \<noteq> CHR ''/'') (rev p))"

definition splitext_ext :: "string \<Rightarrow> string" where
  "splitext_ext p =
     (let b = basename p;
          e = rev (takeWhile (\<lambda>c. c \<noteq> CHR ''.'') (rev b));
          stem = take (length b - length e - 1) b
      in if CHR ''.'' \<notin> set b then []
         else if list_all (\<lambda>c. c = CHR ''.'') stem then []
         else CHR ''.'' # e)"

definition path_join :: "string \<Rightarrow> string \<Rightarrow> string" where
  "path_join a b =
     (if startswith b ''/'' then b
      else if a = [] \<or> endswith a ''/'' then a @ b
      else a @ ''/'' @ b)"

definition line_of :: "string \<Rightarrow> nat \<Rightarrow> nat" where
  "line_of content start = length (filter (\<lambda>c. c = CHR 0x0A) (take start content)) + 1"

section \<open>Helper functions of the extractor\<close>

definition make_node_id :: "string \<Rightarrow> string \<Rightarrow> string option \<Rightarrow> string" where
  "make_node_id kind file_path name =
     (let base = kind @ ''.'' @ file_path
      in case name of
           None \<Rightarrow> base
         | Some n \<Rightarrow> if n \<noteq> [] then base @ '':'' @ n else base)"

definition detect_language :: "string \<Rightarrow> string option" where
  "detect_language file_path = map_of SUPPORTED_EXTENSIONS (lower (splitext_ext file_path))"

section \<open>Regular-expression search\<close>

datatype pattern =
    TS_import | TS_export_function | TS_export_const_arrow | TS_class | TS_interface | TS_type
  | PY_import | PY_function | PY_class | PY_const
  | JAVA_package | JAVA_import | JAVA_class | JAVA_interface | JAVA_enum | JAVA_annotation
  | JAVA_method | JAVA_constant

record rmatch =
  m_start :: nat
  m_text :: string
  m_groups :: "string option list"

definition group :: "rmatch \<Rightarrow> nat \<Rightarrow> string option" where
  "group m i = (if 1 \<le> i \<and> i \<le> length (m_groups m) then m_groups m ! (i - 1) else None)"

definition grp :: "rmatch \<Rightarrow> nat \<Rightarrow> string" where
  "grp m i = (case group m i of Some s \<Rightarrow> s | None \<Rightarrow> [])"

definition truthy :: "string option \<Rightarrow> bool" where
  "truthy v = (case v of Some s \<Rightarrow> s \<noteq> [] | None \<Rightarrow> False)"

datatype read_outcome =
    Content string
  | RaisesFileNotFound string
  | RaisesUnicodeDecode string
  | RaisesOther string

datatype py_exn = IndexError | Uncaught string

datatype dtree = Dir (dir_files: "string list") (dir_subdirs: "(string \<times> dtree) list")

record world =
  re_finditer :: "pattern \<Rightarrow> string \<Rightarrow> rmatch list"
  md5_hexdigest :: "string \<Rightarrow> string"
  str_encode :: "string \<Rightarrow> string"
  os_path_exists :: "string \<Rightarrow> bool"
  os_path_isdir :: "string \<Rightarrow> bool"
  os_path_relpath :: "string \<Rightarrow> string \<Rightarrow> string"
  os_walk :: "string \<Rightarrow> dtree"
  open_rb :: "string \<Rightarrow> string option"
  read_text_file :: "string \<Rightarrow> read_outcome"

definition add_node :: "CodeNode \<Rightarrow> ExtractionResult \<Rightarrow> ExtractionResult" where
  "add_node n r = r\<lparr>nodes := nodes r @ [n]\<rparr>"

definition add_edge :: "CodeEdge \<Rightarrow> ExtractionResult \<Rightarrow> ExtractionResult" where
  "add_edge e r = r\<lparr>edges := edges r @ [e]\<rparr>"

definition defines_edge :: "string \<Rightarrow> string \<Rightarrow> CodeEdge" where
  "defines_edge file_id target =
     \<lparr>from_id = file_id, to_id = target, edge_kind = ''defines'', edge_line_number = None,
      confidence = 1\<rparr>"

definition file_node :: "string \<Rightarrow> string \<Rightarrow> string \<Rightarrow> CodeNode" where
  "file_node file_path lang h =
     \<lparr>node_id = make_node_id ''file'' file_path None, node_kind = ''file'',
      node_name = basename file_path, node_file_path = file_path, node_line_start = 0,
      node_line_end = 0, node_signature = None, node_language = Some lang,
      node_visibility = None,
      node_hash = Some h\<rparr>"

definition new_result :: "world \<Rightarrow> string \<Rightarrow> string \<Rightarrow> string \<Rightarrow> ExtractionResult" where
  "new_result w content file_path lang =
     (let h = md5_hexdigest w (str_encode w content)
      in \<lparr>nodes = [file_node file_path lang h], edges = [],
          result_file_path = file_path, file_hash = h, result_language = lang, errors = []\<rparr>)"

section \<open>Java extraction\<close>

fun close_index :: "string \<Rightarrow> nat option" where
  "close_index (a # b # cs) =
     (if a = CHR ''*'' \<and> b = CHR ''/'' then Some 2
      else map_option Suc (close_index (b # cs)))"
| "close_index cs = None"

fun remove_block_comments :: "nat \<Rightarrow> string \<Rightarrow> string" where
  "remove_block_comments k [] = []"
| "remove_block_comments (Suc k) (c # cs) = remove_block_comments k cs"
| "remove_block_comments 0 (c # cs) =
     (if c = CHR ''/'' \<and> startswith cs ''*'' then
        (case close_index (tl cs) of
           Some n \<Rightarrow> remove_block_comments (Suc n) cs
         | None \<Rightarrow> c # remove_block_comments 0 cs)
      else c # remove_block_comments 0 cs)"

fun remove_line_comments :: "bool \<Rightarrow> string \<Rightarrow> string" where
  "remove_line_comments skipping [] = []"
| "remove_line_comments skipping (c # cs) =
     (if skipping then
        (if c = CHR 0x0A then c # remove_line_comments False cs
         else remove_line_comments True cs)
      else if c = CHR ''/'' \<and> startswith cs ''/'' then remove_line_comments True cs
      else c # remove_line_comments False cs)"

definition remove_java_comments :: "string \<Rightarrow> string" where
  "remove_java_comments content = remove_line_comments False (remove_block_comments 0 content)"

definition java_visibility :: "string \<Rightarrow> string" where
  "java_visibility match_text =
     (if str_contains match_text ''public'' then ''public''
      else if str_contains match_text ''protected'' then ''protected''
      else if str_contains match_text ''private'' then ''private''
      else ''package'')"

definition qualify :: "string \<Rightarrow> string \<Rightarrow> string" where
  "qualify package_name name =
     (if package_name \<noteq> [] then package_name @ ''.'' @ name else name)"

definition strip_generics :: "string \<Rightarrow> string" where
  "strip_generics s = strip (hd (split_on CHR ''<'' (strip s)))"

definition relation_edge :: "string \<Rightarrow> string \<Rightarrow> string \<Rightarrow> nat \<Rightarrow> CodeEdge" where
  "relation_edge source target kind line_num =
     \<lparr>from_id = source, to_id = target, edge_kind = kind, edge_line_number = Some line_num,
      confidence = 8 / 10\<rparr>"

definition java_import_step :: "string \<Rightarrow> string \<Rightarrow> rmatch \<Rightarrow> ExtractionResult
    \<Rightarrow> ExtractionResult" where
  "java_import_step cleaned_content file_id m r =
     (let import_path = grp m 1;
          line_num = line_of cleaned_content (m_start m);
          target_id = (if endswith import_path ''.*''
                       then ''package.'' @ take (length import_path - 2) import_path
                       else ''class.'' @ import_path)
      in add_edge \<lparr>from_id = file_id, to_id = target_id, edge_kind = ''imports'',
           edge_line_number = Some line_num, confidence = 1\<rparr> r)"

definition java_iface_step :: "string \<Rightarrow> string \<Rightarrow> nat \<Rightarrow> string \<Rightarrow> ExtractionResult
    \<Rightarrow> ExtractionResult" where
  "java_iface_step source kind line_num iface r =
     (let iface_name = strip_generics iface
      in if iface_name \<noteq> []
         then add_edge (relation_edge source (''interface.'' @ iface_name) kind line_num) r
         else r)"

definition java_iface_loop :: "string \<Rightarrow> string \<Rightarrow> nat \<Rightarrow> string option \<Rightarrow> ExtractionResult
    \<Rightarrow> ExtractionResult" where
  "java_iface_loop source kind line_num clause r =
     (case clause of
        None \<Rightarrow> r
      | Some s \<Rightarrow>
          if s \<noteq> [] then fold (java_iface_step source kind line_num) (split_on CHR '','' s) r
          else r)"

type_synonym class_stack = "(string \<times> string \<times> nat) list"

definition pop_expired :: "nat \<Rightarrow> class_stack \<Rightarrow> class_stack" where
  "pop_expired line_num class_stack =
     rev (dropWhile (\<lambda>entry. line_num \<ge> snd (snd entry)) (rev class_stack))"

definition java_class_step :: "string \<Rightarrow> string list \<Rightarrow> string \<Rightarrow> string \<Rightarrow> string \<Rightarrow> rmatch
    \<Rightarrow> ExtractionResult \<times> class_stack \<Rightarrow> ExtractionResult \<times> class_stack" where
  "java_class_step cleaned_content lines file_path file_id package_name m st =
     (let r = fst st; class_stack = snd st;
          name = grp m 1;
          line_num = line_of cleaned_content (m_start m);
          line_end = find_java_block_end lines (line_num - 1);
          qualified_name = qualify package_name name;
          class_id = make_node_id ''class'' file_path (Some qualified_name);
          class_node = \<lparr>node_id = class_id, node_kind = ''class'', node_name = name,
            node_file_path = file_path, node_line_start = line_num, node_line_end = line_end,
            node_signature = None, node_language = Some ''java'',
            node_visibility = Some (java_visibility (m_text m)), node_hash = None\<rparr>;
          r1 = add_node class_node r;
          r2 = (if class_stack \<noteq> [] \<and> line_num < snd (snd (last class_stack))
                then add_edge \<lparr>from_id = fst (snd (last class_stack)), to_id = class_id,
                       edge_kind = ''contains'', edge_line_number = Some line_num,
                       confidence = 1\<rparr> r1
                else add_edge (defines_edge file_id class_id) r1);
          r3 = (if truthy (group m 2)
                then add_edge (relation_edge class_id
                       (''class.'' @ strip_generics (grp m 2)) ''extends'' line_num) r2
                else r2);
          r4 = java_iface_loop class_id ''implements'' line_num (group m 3) r3
      in (r4, pop_expired line_num class_stack @ [(name, class_id, line_end)]))"

definition java_interface_step :: "string \<Rightarrow> string list \<Rightarrow> string \<Rightarrow> string \<Rightarrow> string
    \<Rightarrow> rmatch \<Rightarrow> ExtractionResult \<Rightarrow> ExtractionResult" where
  "java_interface_step cleaned_content lines file_path file_id package_name m r =
     (let name = grp m 1;
          line_num = line_of cleaned_content (m_start m);
          line_end = find_java_block_end lines (line_num - 1);
          iface_id = make_node_id ''interface'' file_path (Some (qualify package_name name));
          iface_node = \<lparr>node_id = iface_id, node_kind = ''interface'', node_name = name,
            node_file_path = file_path, node_line_start = line_num, node_line_end = line_end,
            node_signature = None, node_language = Some ''java'', node_visibility = None,
            node_hash = None\<rparr>;
          r1 = add_edge (defines_edge file_id iface_id) (add_node iface_node r)
      in java_iface_loop iface_id ''extends'' line_num (group m 2) r1)"

definition java_enum_step :: "string \<Rightarrow> string list \<Rightarrow> string \<Rightarrow> string \<Rightarrow> string
    \<Rightarrow> rmatch \<Rightarrow> ExtractionResult \<Rightarrow> ExtractionResult" where
  "java_enum_step cleaned_content lines file_path file_id package_name m r =
     (let name = grp m 1;
          line_num = line_of cleaned_content (m_start m);
          line_end = find_java_block_end lines (line_num - 1);
          enum_id = make_node_id ''enum'' file_path (Some (qualify package_name name));
          enum_node = \<lparr>node_id = enum_id, node_kind = ''enum'', node_name = name,
            node_file_path = file_path, node_line_start = line_num, node_line_end = line_end,
            node_signature = None, node_language = Some ''java'', node_visibility = None,
            node_hash = None\<rparr>;
          r1 = add_edge (defines_edge file_id enum_id) (add_node enum_node r)
      in java_iface_loop enum_id ''implements'' line_num (group m 2) r1)"

definition java_annotation_step :: "string \<Rightarrow> string list \<Rightarrow> string \<Rightarrow> string \<Rightarrow> string
    \<Rightarrow> rmatch \<Rightarrow> ExtractionResult \<Rightarrow> ExtractionResult" where
  "java_annotation_step cleaned_content lines file_path file_id package_name m r =
     (let name = grp m 1;
          line_num = line_of cleaned_content (m_start m);
          line_end = find_java_block_end lines (line_num - 1);
          annotation_id =
            make_node_id ''annotation'' file_path (Some (qualify package_name name));
          annotation_node = \<lparr>node_id = annotation_id, node_kind = ''annotation'',
            node_name = name, node_file_path = file_path, node_line_start = line_num,
            node_line_end = line_end, node_signature = None, node_language = Some ''java'',
            node_visibility = None, node_hash = None\<rparr>
      in add_edge (defines_edge file_id annotation_id) (add_node annotation_node r))"

definition is_type_node :: "CodeNode \<Rightarrow> bool" where
  "is_type_node n \<longleftrightarrow>
     node_kind n \<in> set [''class'', ''interface'', ''enum'', ''annotation'']"

type_synonym type_range = "string \<times> string \<times> nat \<times> nat"

definition range_start :: "type_range \<Rightarrow> nat" where
  "range_start t = fst (snd (snd t))"

definition range_end :: "type_range \<Rightarrow> nat" where
  "range_end t = snd (snd (snd t))"

definition range_id :: "type_range \<Rightarrow> string" where
  "range_id t = fst (snd t)"

definition type_names_of :: "ExtractionResult \<Rightarrow> string list" where
  "type_names_of r = map node_name (filter is_type_node (nodes r))"

definition type_ranges_of :: "ExtractionResult \<Rightarrow> type_range list" where
  "type_ranges_of r =
     sort_key range_start
       (map (\<lambda>n. (node_name n, node_id n, node_line_start n, node_line_end n))
          (filter is_type_node (nodes r)))"

definition strictly_inside :: "nat \<Rightarrow> type_range \<Rightarrow> bool" where
  "strictly_inside line_num t \<longleftrightarrow> range_start t < line_num \<and> line_num < range_end t"

definition find_containing :: "type_range list \<Rightarrow> nat \<Rightarrow> string option" where
  "find_containing type_ranges line_num =
     map_option range_id (List.find (strictly_inside line_num) (rev type_ranges))"

definition control_keywords :: "string list" where
  "control_keywords = [''throw'', ''return'', ''new'', ''if'', ''for'', ''while'', ''switch'']"

definition java_method_skipped :: "string list \<Rightarrow> rmatch \<Rightarrow> bool" where
  "java_method_skipped type_names m \<longleftrightarrow>
     (grp m 2 \<in> set type_names \<and> strip (grp m 1) = grp m 2)
     \<or> strip (grp m 1) \<in> set control_keywords"

definition java_method_step :: "string \<Rightarrow> string list \<Rightarrow> string \<Rightarrow> string \<Rightarrow> string list
    \<Rightarrow> type_range list \<Rightarrow> rmatch \<Rightarrow> ExtractionResult \<Rightarrow> ExtractionResult" where
  "java_method_step cleaned_content lines file_path file_id type_names type_ranges m r =
     (let return_type = strip (grp m 1);
          name = grp m 2;
          params = grp m 3;
          throws = group m 4;
          line_num = line_of cleaned_content (m_start m)
      in if name \<in> set type_names \<and> return_type = name then r
         else if return_type \<in> set control_keywords then r
         else
          (let line_end = find_java_block_end lines (line_num - 1);
               method_id = make_node_id ''function'' file_path (Some name);
               signature = return_type @ '' '' @ name @ ''('' @ params @ '')''
                 @ (if truthy throws then '' throws '' @ strip (grp m 4) else []);
               method_node = \<lparr>node_id = method_id, node_kind = ''function'',
                 node_name = name, node_file_path = file_path, node_line_start = line_num,
                 node_line_end = line_end, node_signature = Some signature,
                 node_language = Some ''java'',
                 node_visibility = Some (java_visibility (m_text m)), node_hash = None\<rparr>;
               r1 = add_node method_node r;
               containing_class = find_containing type_ranges line_num
           in case containing_class of
                Some type_id \<Rightarrow>
                  if type_id \<noteq> []
                  then add_edge \<lparr>from_id = type_id, to_id = method_id,
                         edge_kind = ''contains'', edge_line_number = Some line_num,
                         confidence = 1\<rparr> r1
                  else add_edge (defines_edge file_id method_id) r1
              | None \<Rightarrow> add_edge (defines_edge file_id method_id) r1))"

definition java_constant_step :: "string \<Rightarrow> string \<Rightarrow> string \<Rightarrow> rmatch \<Rightarrow> ExtractionResult
    \<Rightarrow> ExtractionResult" where
  "java_constant_step cleaned_content file_path file_id m r =
     (let name = grp m 2;
          line_num = line_of cleaned_content (m_start m);
          const_id = make_node_id ''constant'' file_path (Some name);
          const_node = \<lparr>node_id = const_id, node_kind = ''constant'', node_name = name,
            node_file_path = file_path, node_line_start = line_num, node_line_end = line_num,
            node_signature = None, node_language = Some ''java'', node_visibility = None,
            node_hash = None\<rparr>
      in add_edge (defines_edge file_id const_id) (add_node const_node r))"

definition java_package_name :: "world \<Rightarrow> string \<Rightarrow> string" where
  "java_package_name w cleaned_content =
     (case re_finditer w JAVA_package cleaned_content of
        [] \<Rightarrow> []
      | m # _ \<Rightarrow> grp m 1)"

definition java_types :: "world \<Rightarrow> string \<Rightarrow> string \<Rightarrow> ExtractionResult" where
  "java_types w content file_path =
     (let cleaned_content = remove_java_comments content;
          lines = split_on (CHR 0x0A) cleaned_content;
          r0 = new_result w content file_path ''java'';
          file_id = make_node_id ''file'' file_path None;
          package_name = java_package_name w cleaned_content;
          r1 = fold (java_import_step cleaned_content file_id)
                 (re_finditer w JAVA_import cleaned_content) r0;
          r2 = fst (fold (java_class_step cleaned_content lines file_path file_id package_name)
                 (re_finditer w JAVA_class cleaned_content) (r1, []));
          r3 = fold (java_interface_step cleaned_content lines file_path file_id package_name)
                 (re_finditer w JAVA_interface cleaned_content) r2;
          r4 = fold (java_enum_step cleaned_content lines file_path file_id package_name)
                 (re_finditer w JAVA_enum cleaned_content) r3
      in fold (java_annotation_step cleaned_content lines file_path file_id package_name)
           (re_finditer w JAVA_annotation cleaned_content) r4)"

definition extract_java :: "world \<Rightarrow> string \<Rightarrow> string \<Rightarrow> ExtractionResult" where
  "extract_java w content file_path =
     (let cleaned_content = remove_java_comments content;
          lines = split_on (CHR 0x0A) cleaned_content;
          file_id = make_node_id ''file'' file_path None;
          r5 = java_types w content file_path;
          type_names = type_names_of r5;
          type_ranges = type_ranges_of r5;
          r6 = fold (java_method_step cleaned_content lines file_path file_id type_names
                  type_ranges)
                 (re_finditer w JAVA_method cleaned_content) r5
      in fold (java_constant_step cleaned_content file_path file_id)
           (re_finditer w JAVA_constant cleaned_content) r6)"

section \<open>TypeScript and JavaScript extraction\<close>

definition ts_import_step :: "string \<Rightarrow> string \<Rightarrow> rmatch \<Rightarrow> ExtractionResult
    \<Rightarrow> ExtractionResult" where
  "ts_import_step content file_id m r =
     (let import_path = grp m 1;
          line_num = line_of content (m_start m)
      in add_edge \<lparr>from_id = file_id, to_id = ''module.'' @ import_path,
           edge_kind = ''imports'', edge_line_number = Some line_num, confidence = 1\<rparr> r)"

definition ts_function_step :: "string \<Rightarrow> string list \<Rightarrow> string \<Rightarrow> string \<Rightarrow> rmatch
    \<Rightarrow> ExtractionResult \<Rightarrow> ExtractionResult" where
  "ts_function_step content lines file_path file_id m r =
     (let name = grp m 1;
          line_num = line_of content (m_start m);
          line_end = find_block_end lines (line_num - 1);
          func_node = \<lparr>node_id = make_node_id ''function'' file_path (Some name),
            node_kind = ''function'', node_name = name, node_file_path = file_path,
            node_line_start = line_num, node_line_end = line_end, node_signature = None,
            node_language = Some ''typescript'', node_visibility = Some ''public'',
            node_hash = None\<rparr>
      in add_edge (defines_edge file_id (node_id func_node)) (add_node func_node r))"

definition ts_iface_step :: "string \<Rightarrow> nat \<Rightarrow> string \<Rightarrow> ExtractionResult \<Rightarrow> ExtractionResult"
  where
  "ts_iface_step class_id line_num iface r =
     (let iface' = strip iface
      in if iface' \<noteq> []
         then add_edge (relation_edge class_id (''interface.'' @ iface') ''implements''
                line_num) r
         else r)"

definition ts_class_step :: "string \<Rightarrow> string list \<Rightarrow> string \<Rightarrow> string \<Rightarrow> rmatch
    \<Rightarrow> ExtractionResult \<Rightarrow> ExtractionResult" where
  "ts_class_step content lines file_path file_id m r =
     (let name = grp m 1;
          line_num = line_of content (m_start m);
          line_end = find_block_end lines (line_num - 1);
          class_id = make_node_id ''class'' file_path (Some name);
          class_node = \<lparr>node_id = class_id, node_kind = ''class'', node_name = name,
            node_file_path = file_path, node_line_start = line_num, node_line_end = line_end,
            node_signature = None, node_language = Some ''typescript'',
            node_visibility = Some ''public'', node_hash = None\<rparr>;
          r1 = add_edge (defines_edge file_id class_id) (add_node class_node r);
          r2 = (if truthy (group m 2)
                then add_edge (relation_edge class_id (''class.'' @ grp m 2) ''extends''
                       line_num) r1
                else r1)
      in if truthy (group m 3)
         then fold (ts_iface_step class_id line_num) (split_on CHR '','' (grp m 3)) r2
         else r2)"

definition ts_interface_step :: "string \<Rightarrow> string list \<Rightarrow> string \<Rightarrow> string \<Rightarrow> rmatch
    \<Rightarrow> ExtractionResult \<Rightarrow> ExtractionResult" where
  "ts_interface_step content lines file_path file_id m r =
     (let name = grp m 1;
          line_num = line_of content (m_start m);
          line_end = find_block_end lines (line_num - 1);
          iface_node = \<lparr>node_id = make_node_id ''interface'' file_path (Some name),
            node_kind = ''interface'', node_name = name, node_file_path = file_path,
            node_line_start = line_num, node_line_end = line_end, node_signature = None,
            node_language = Some ''typescript'', node_visibility = None, node_hash = None\<rparr>
      in add_edge (defines_edge file_id (node_id iface_node)) (add_node iface_node r))"

definition ts_type_step :: "string \<Rightarrow> string \<Rightarrow> string \<Rightarrow> rmatch \<Rightarrow> ExtractionResult
    \<Rightarrow> ExtractionResult" where
  "ts_type_step content file_path file_id m r =
     (let name = grp m 1;
          line_num = line_of content (m_start m);
          type_node = \<lparr>node_id = make_node_id ''type'' file_path (Some name),
            node_kind = ''type'', node_name = name, node_file_path = file_path,
            node_line_start = line_num, node_line_end = line_num, node_signature = None,
            node_language = Some ''typescript'', node_visibility = None, node_hash = None\<rparr>
      in add_edge (defines_edge file_id (node_id type_node)) (add_node type_node r))"

definition extract_typescript :: "world \<Rightarrow> string \<Rightarrow> string \<Rightarrow> ExtractionResult" where
  "extract_typescript w content file_path =
     (let r0 = new_result w content file_path ''typescript'';
          file_id = make_node_id ''file'' file_path None;
          lines = split_on (CHR 0x0A) content;
          r1 = fold (ts_import_step content file_id) (re_finditer w TS_import content) r0;
          r2 = fold (ts_function_step content lines file_path file_id)
                 (re_finditer w TS_export_function content) r1;
          r3 = fold (ts_function_step content lines file_path file_id)
                 (re_finditer w TS_export_const_arrow content) r2;
          r4 = fold (ts_class_step content lines file_path file_id)
                 (re_finditer w TS_class content) r3;
          r5 = fold (ts_interface_step content lines file_path file_id)
                 (re_finditer w TS_interface content) r4
      in fold (ts_type_step content file_path file_id) (re_finditer w TS_type content) r5)"

section \<open>Python extraction\<close>

definition indent_of :: "string \<Rightarrow> nat" where
  "indent_of line = length line - length (lstrip line)"

fun find_python_block_end_lines :: "nat \<Rightarrow> nat \<Rightarrow> string list \<Rightarrow> nat option" where
  "find_python_block_end_lines i start_indent [] = None"
| "find_python_block_end_lines i start_indent (line # rest) =
     (let stripped = strip line
      in if stripped = [] then find_python_block_end_lines (i + 1) start_indent rest
         else if startswith stripped ''#'' then
           find_python_block_end_lines (i + 1) start_indent rest
         else if indent_of line \<le> start_indent then Some i
         else find_python_block_end_lines (i + 1) start_indent rest)"

definition find_python_block_end :: "string list \<Rightarrow> nat \<Rightarrow> nat" where
  "find_python_block_end lines start_line =
     (if start_line \<ge> length lines then start_line + 1
      else case find_python_block_end_lines (start_line + 1) (indent_of (lines ! start_line))
                  (drop (start_line + 1) lines) of
             Some i \<Rightarrow> i
           | None \<Rightarrow> length lines)"

definition py_import_target :: "rmatch \<Rightarrow> py_exn + string" where
  "py_import_target m =
     (if truthy (group m 1) then Inr (''module.'' @ grp m 1)
      else (let first = strip (hd (split_on CHR '','' (grp m 2)))
            in if first = [] then Inl IndexError
               else Inr (''module.'' @ takeWhile (\<lambda>c. \<not> py_isspace c) first)))"

fun py_import_loop :: "string \<Rightarrow> string \<Rightarrow> rmatch list \<Rightarrow> ExtractionResult
    \<Rightarrow> py_exn + ExtractionResult" where
  "py_import_loop content file_id [] r = Inr r"
| "py_import_loop content file_id (m # ms) r =
     (case py_import_target m of
        Inl e \<Rightarrow> Inl e
      | Inr target_id \<Rightarrow>
          py_import_loop content file_id ms
            (add_edge \<lparr>from_id = file_id, to_id = target_id, edge_kind = ''imports'',
               edge_line_number = Some (line_of content (m_start m)), confidence = 1\<rparr> r))"

definition py_function_step :: "string \<Rightarrow> string list \<Rightarrow> string \<Rightarrow> string \<Rightarrow> rmatch
    \<Rightarrow> ExtractionResult \<Rightarrow> ExtractionResult" where
  "py_function_step content lines file_path file_id m r =
     (let name = grp m 1;
          line_num = line_of content (m_start m);
          line_end = find_python_block_end lines (line_num - 1);
          visibility = (if startswith name ''_'' then ''private'' else ''public'');
          func_node = \<lparr>node_id = make_node_id ''function'' file_path (Some name),
            node_kind = ''function'', node_name = name, node_file_path = file_path,
            node_line_start = line_num, node_line_end = line_end, node_signature = None,
            node_language = Some ''python'', node_visibility = Some visibility,
            node_hash = None\<rparr>
      in add_edge (defines_edge file_id (node_id func_node)) (add_node func_node r))"

definition py_base_step :: "string \<Rightarrow> nat \<Rightarrow> string \<Rightarrow> ExtractionResult \<Rightarrow> ExtractionResult"
  where
  "py_base_step class_id line_num base r =
     (let base' = strip base
      in if base' \<noteq> [] \<and> base' \<noteq> ''object''
         then add_edge (relation_edge class_id (''class.'' @ base') ''extends'' line_num) r
         else r)"

definition py_class_step :: "string \<Rightarrow> string list \<Rightarrow> string \<Rightarrow> string \<Rightarrow> rmatch
    \<Rightarrow> ExtractionResult \<Rightarrow> ExtractionResult" where
  "py_class_step content lines file_path file_id m r =
     (let name = grp m 1;
          line_num = line_of content (m_start m);
          line_end = find_python_block_end lines (line_num - 1);
          class_id = make_node_id ''class'' file_path (Some name);
          class_node = \<lparr>node_id = class_id, node_kind = ''class'', node_name = name,
            node_file_path = file_path, node_line_start = line_num, node_line_end = line_end,
            node_signature = None, node_language = Some ''python'', node_visibility = None,
            node_hash = None\<rparr>;
          r1 = add_edge (defines_edge file_id class_id) (add_node class_node r)
      in if truthy (group m 2)
         then fold (py_base_step class_id line_num) (split_on CHR '','' (grp m 2)) r1
         else r1)"

definition py_const_step :: "string \<Rightarrow> string \<Rightarrow> string \<Rightarrow> rmatch \<Rightarrow> ExtractionResult
    \<Rightarrow> ExtractionResult" where
  "py_const_step content file_path file_id m r =
     (let name = grp m 1;
          line_num = line_of content (m_start m);
          const_node = \<lparr>node_id = make_node_id ''constant'' file_path (Some name),
            node_kind = ''constant'', node_name = name, node_file_path = file_path,
            node_line_start = line_num, node_line_end = line_num, node_signature = None,
            node_language = Some ''python'', node_visibility = None, node_hash = None\<rparr>
      in add_edge (defines_edge file_id (node_id const_node)) (add_node const_node r))"

definition extract_python :: "world \<Rightarrow> string \<Rightarrow> string \<Rightarrow> py_exn + ExtractionResult" where
  "extract_python w content file_path =
     (let r0 = new_result w content file_path ''python'';
          file_id = make_node_id ''file'' file_path None;
          lines = split_on (CHR 0x0A) content
      in case py_import_loop content file_id (re_finditer w PY_import content) r0 of
           Inl e \<Rightarrow> Inl e
         | Inr r1 \<Rightarrow>
            (let r2 = fold (py_function_step content lines file_path file_id)
                        (re_finditer w PY_function content) r1;
                 r3 = fold (py_class_step content lines file_path file_id)
                        (re_finditer w PY_class content) r2
             in Inr (fold (py_const_step content file_path file_id)
                       (re_finditer w PY_const content) r3)))"

section \<open>Single-file extraction\<close>

definition error_result :: "string \<Rightarrow> string \<Rightarrow> string \<Rightarrow> ExtractionResult" where
  "error_result file_path lang msg =
     \<lparr>nodes = [], edges = [], result_file_path = file_path, file_hash = [],
      result_language = lang, errors = [msg]\<rparr>"

definition extract_from_file :: "world \<Rightarrow> string \<Rightarrow> py_exn + ExtractionResult" where
  "extract_from_file w file_path =
     (if \<not> os_path_exists w file_path
      then Inr (error_result file_path [] (''File not found: '' @ file_path))
      else if \<not> truthy (detect_language file_path)
      then Inr (error_result file_path [] (''Unsupported file type: '' @ file_path))
      else
       (let language = the (detect_language file_path)
        in case read_text_file w file_path of
             RaisesFileNotFound e \<Rightarrow>
               Inr (error_result file_path [] (''Failed to read file: '' @ e))
           | RaisesUnicodeDecode e \<Rightarrow>
               Inr (error_result file_path [] (''Failed to read file: '' @ e))
           | RaisesOther e \<Rightarrow> Inl (Uncaught e)
           | Content content \<Rightarrow>
               if language \<in> set [''typescript'', ''javascript'']
               then Inr (extract_typescript w content file_path)
               else if language = ''python'' then extract_python w content file_path
               else if language = ''java'' then Inr (extract_java w content file_path)
               else Inr (error_result file_path language
                      (''Extractor not implemented for: '' @ language))))"

section \<open>Directory extraction\<close>

record dir_result =
  all_nodes :: "CodeNode list"
  all_edges :: "CodeEdge list"
  files_processed :: nat
  files_skipped :: nat
  dir_errors :: "string list"
  new_hashes :: "string \<rightharpoonup> string"

definition compute_file_hash :: "world \<Rightarrow> string \<Rightarrow> py_exn + string" where
  "compute_file_hash w file_path =
     (case open_rb w file_path of
        None \<Rightarrow> Inl (Uncaught ''OSError'')
      | Some bytes \<Rightarrow> Inr (md5_hexdigest w bytes))"

definition record_extraction :: "string \<Rightarrow> ExtractionResult \<Rightarrow> dir_result \<Rightarrow> dir_result"
  where
  "record_extraction rel_path result st =
     (if errors result \<noteq> []
      then st\<lparr>dir_errors := dir_errors st @ errors result\<rparr>
      else st\<lparr>all_nodes := all_nodes st @ nodes result,
              all_edges := all_edges st @ edges result,
              new_hashes := (new_hashes st)(rel_path \<mapsto> file_hash result),
              files_processed := files_processed st + 1\<rparr>)"

definition extract_and_record :: "(string \<Rightarrow> py_exn + ExtractionResult) \<Rightarrow> string \<Rightarrow> string
    \<Rightarrow> dir_result \<Rightarrow> py_exn + dir_result" where
  "extract_and_record extract file_path rel_path st =
     (case extract file_path of
        Inl e \<Rightarrow> Inl e
      | Inr result \<Rightarrow> Inr (record_extraction rel_path result st))"

definition file_body :: "(string \<Rightarrow> py_exn + ExtractionResult) \<Rightarrow> world \<Rightarrow> string \<Rightarrow> bool
    \<Rightarrow> (string \<rightharpoonup> string) \<Rightarrow> string \<Rightarrow> string \<Rightarrow> dir_result \<Rightarrow> py_exn + dir_result" where
  "file_body extract w directory incremental file_hashes walk_root filename st =
     (let ext = lower (splitext_ext filename)
      in if ext \<notin> set (map fst SUPPORTED_EXTENSIONS) then Inr st
         else
          (let file_path = path_join walk_root filename;
               rel_path = os_path_relpath w file_path directory
           in if incremental then
                (case compute_file_hash w file_path of
                   Inl e \<Rightarrow> Inl e
                 | Inr current_hash \<Rightarrow>
                     if file_hashes rel_path = Some current_hash
                     then Inr (st\<lparr>files_skipped := files_skipped st + 1,
                                  new_hashes := (new_hashes st)(rel_path \<mapsto> current_hash)\<rparr>)
                     else extract_and_record extract file_path rel_path st)
              else extract_and_record extract file_path rel_path st))"

fun files_loop :: "(string \<Rightarrow> py_exn + ExtractionResult) \<Rightarrow> world \<Rightarrow> string \<Rightarrow> bool
    \<Rightarrow> (string \<rightharpoonup> string) \<Rightarrow> string \<Rightarrow> string list \<Rightarrow> dir_result \<Rightarrow> py_exn + dir_result" where
  "files_loop extract w directory incremental file_hashes walk_root [] st = Inr st"
| "files_loop extract w directory incremental file_hashes walk_root (filename # files) st =
     (case file_body extract w directory incremental file_hashes walk_root filename st of
        Inl e \<Rightarrow> Inl e
      | Inr st' \<Rightarrow> files_loop extract w directory incremental file_hashes walk_root files st')"

fun walk :: "string \<Rightarrow> dtree \<Rightarrow> (string \<times> string list) list" where
  "walk walk_root (Dir files subdirs) =
     (walk_root, files) #
       concat (map (\<lambda>entry. walk (path_join walk_root (fst entry)) (snd entry))
         (filter (\<lambda>entry. fst entry \<notin> set IGNORED_DIRS) subdirs))"

fun walk_loop :: "(string \<Rightarrow> py_exn + ExtractionResult) \<Rightarrow> world \<Rightarrow> string \<Rightarrow> bool
    \<Rightarrow> (string \<rightharpoonup> string) \<Rightarrow> (string \<times> string list) list \<Rightarrow> dir_result
    \<Rightarrow> py_exn + dir_result" where
  "walk_loop extract w directory incremental file_hashes [] st = Inr st"
| "walk_loop extract w directory incremental file_hashes ((walk_root, files) # rest) st =
     (case files_loop extract w directory incremental file_hashes walk_root files st of
        Inl e \<Rightarrow> Inl e
      | Inr st' \<Rightarrow> walk_loop extract w directory incremental file_hashes rest st')"

definition empty_dir_result :: dir_result where
  "empty_dir_result =
     \<lparr>all_nodes = [], all_edges = [], files_processed = 0, files_skipped = 0,
      dir_errors = [], new_hashes = Map.empty\<rparr>"

definition extract_from_directory :: "world \<Rightarrow> string \<Rightarrow> bool \<Rightarrow> (string \<rightharpoonup> string) option
    \<Rightarrow> py_exn + dir_result" where
  "extract_from_directory w directory incremental file_hashes =
     (if \<not> os_path_isdir w directory
      then Inr (empty_dir_result\<lparr>dir_errors := [''Directory not found: '' @ directory]\<rparr>)
      else walk_loop (extract_from_file w) w directory incremental
             (case file_hashes of None \<Rightarrow> Map.empty | Some h \<Rightarrow> h)
             (walk directory (os_walk w directory)) empty_dir_result)"

text \<open>
  The nested loops visit the supported and unsupported files of the walk in one fixed
  order. \<open>walk_entries\<close> lists them as (directory, file name) pairs and
  \<open>entries_loop\<close> runs the loop body over that list.
\<close>

definition walk_entries :: "(string \<times> string list) list \<Rightarrow> (string \<times> string) list" where
  "walk_entries ws = concat (map (\<lambda>entry. map (Pair (fst entry)) (snd entry)) ws)"

fun entries_loop :: "(string \<Rightarrow> py_exn + ExtractionResult) \<Rightarrow> world \<Rightarrow> string \<Rightarrow> bool
    \<Rightarrow> (string \<rightharpoonup> string) \<Rightarrow> (string \<times> string) list \<Rightarrow> dir_result \<Rightarrow> py_exn + dir_result"
  where
  "entries_loop extract w directory incremental file_hashes [] st = Inr st"
| "entries_loop extract w directory incremental file_hashes (entry # rest) st =
     (case file_body extract w directory incremental file_hashes (fst entry) (snd entry) st of
        Inl e \<Rightarrow> Inl e
      | Inr st' \<Rightarrow> entries_loop extract w directory incremental file_hashes rest st')"

definition directory_entries :: "world \<Rightarrow> string \<Rightarrow> (string \<times> string) list" where
  "directory_entries w directory = walk_entries (walk directory (os_walk w directory))"

definition entry_rel_path :: "world \<Rightarrow> string \<Rightarrow> string \<times> string \<Rightarrow> string" where
  "entry_rel_path w directory entry =
     os_path_relpath w (path_join (fst entry) (snd entry)) directory"

text \<open>
  Two relations between loop states, used to compare a run with the run over the same
  entries without one file: the states agree except that the second counts one more
  skipped file and may differ in the hash entry of the key \<open>k\<close>; or they agree
  except that the second holds the additional error strings \<open>errs\<close> after the first
  \<open>n\<close> ones.
\<close>

definition same_but_skip :: "string \<Rightarrow> dir_result \<Rightarrow> dir_result \<Rightarrow> bool" where
  "same_but_skip k a b \<longleftrightarrow>
     all_nodes b = all_nodes a \<and> all_edges b = all_edges a
     \<and> dir_errors b = dir_errors a \<and> files_processed b = files_processed a
     \<and> files_skipped b = files_skipped a + 1
     \<and> (\<forall>k'. k' \<noteq> k \<longrightarrow> new_hashes b k' = new_hashes a k')"

definition same_but_errors :: "nat \<Rightarrow> string list \<Rightarrow> dir_result \<Rightarrow> dir_result \<Rightarrow> bool" where
  "same_but_errors n errs a b \<longleftrightarrow>
     all_nodes b = all_nodes a \<and> all_edges b = all_edges a
     \<and> files_processed b = files_processed a \<and> files_skipped b = files_skipped a
     \<and> new_hashes b = new_hashes a \<and> n \<le> length (dir_errors a)
     \<and> dir_errors b = take n (dir_errors a) @ errs @ drop n (dir_errors a)"

section \<open>Concrete worlds for the examples\<close>

text \<open>
  A directory \<^verbatim>\<open>src\<close> with a Python file that reads as text, a text file of an
  unsupported type, a Python file whose bytes do not decode, and an ignored
  \<^verbatim>\<open>.git\<close> directory. No pattern matches anywhere.
\<close>

definition no_matches_world :: world where
  "no_matches_world =
     \<lparr>re_finditer = (\<lambda>p s. []),
      md5_hexdigest = (\<lambda>b. ''md5:'' @ b),
      str_encode = (\<lambda>s. s),
      os_path_exists = (\<lambda>p. p \<in> set [''src/a.py'', ''src/notes.txt'', ''src/b.py'']),
      os_path_isdir = (\<lambda>p. p = ''src''),
      os_path_relpath = (\<lambda>p d. drop (length d + 1) p),
      os_walk = (\<lambda>d. Dir [''a.py'', ''notes.txt'', ''b.py''] [(''.git'', Dir [''c.py''] [])]),
      open_rb = (\<lambda>p. if p = ''src/a.py'' then Some ''x = 1'' else Some ''??''),
      read_text_file = (\<lambda>p. if p = ''src/a.py'' then Content ''x = 1''
                             else RaisesUnicodeDecode ''invalid start byte'')\<rparr>"

definition a_py_hashes :: "string \<rightharpoonup> string" where
  "a_py_hashes = [''a.py'' \<mapsto> ''md5:x = 1'']"

section \<open>Block boundaries: proofs\<close>

lemma first_close_append_chars:
  "first_close b st (map (Pair i) line @ ts) =
     (case find_block_end_chars b st line of
        Return _ \<Rightarrow> Some (i + 1)
      | Next (b', st') \<Rightarrow> first_close b' st' ts)"
  by (induction line arbitrary: b st) auto

lemma find_block_end_lines_first_close:
  "find_block_end_lines i b st ls = first_close b st (tag_lines i ls)"
  by (induction ls arbitrary: i b st) (auto simp: first_close_append_chars split: loop.splits)

lemma depth_Nil: "depth [] = 0"
  by (simp add: depth_def)

lemma depth_Cons:
  "depth (t # ts) =
     (if snd t = CHR ''{'' then 1 else if snd t = CHR ''}'' then - 1 else 0) + depth ts"
  by (simp add: depth_def)

lemma closes_from_0:
  "closes_from b (t # ts) 0 \<longleftrightarrow> snd t = CHR ''}'' \<and> b = 1"
  by (auto simp: closes_from_def depth_Cons depth_Nil)

lemma closes_from_Suc:
  "closes_from b (t # ts) (Suc k) =
     closes_from (b + (if snd t = CHR ''{'' then 1 else if snd t = CHR ''}'' then - 1 else 0)) ts k"
  by (simp add: closes_from_def depth_Cons add.assoc)

lemma find_map_comp: "List.find P (map f xs) = map_option f (List.find (P \<circ> f) xs)"
  by (induction xs) auto

lemma find_upt_Suc:
  "List.find P [0..<Suc n] =
     (if P 0 then Some 0 else map_option Suc (List.find (P \<circ> Suc) [0..<n]))"
proof -
  have "[0..<Suc n] = 0 # map Suc [0..<n]"
    by (simp add: upt_conv_Cons map_Suc_upt del: upt_Suc)
  then show ?thesis
    by (simp add: find_map_comp del: upt_Suc)
qed

lemma first_close_find:
  "(0 < b \<longrightarrow> st) \<Longrightarrow>
   first_close b st ts =
     map_option (\<lambda>k. fst (ts ! k) + 1) (List.find (closes_from b ts) [0..<length ts])"
proof (induction ts arbitrary: b st)
  case Nil
  then show ?case by simp
next
  case (Cons t ts)
  have comp: "closes_from b (t # ts) \<circ> Suc =
      closes_from (b + (if snd t = CHR ''{'' then 1 else if snd t = CHR ''}'' then - 1 else 0)) ts"
    by (rule ext) (simp add: closes_from_Suc)
  show ?case
  proof (cases "snd t = CHR ''{''")
    case True
    then show ?thesis
      using Cons.IH [of "b + 1" True]
      by (simp add: find_upt_Suc closes_from_0 closes_from_Suc option.map_comp comp_def del: upt_Suc)
  next
    case False
    note nopen = this
    show ?thesis
    proof (cases "snd t = CHR ''}''")
      case True
      show ?thesis
      proof (cases "b = 1")
        case True
        with Cons.prems \<open>snd t = CHR ''}''\<close> show ?thesis
          by (simp add: find_upt_Suc closes_from_0 del: upt_Suc)
      next
        case False
        with Cons.prems have "0 < b - 1 \<longrightarrow> st" by simp
        from Cons.IH [OF this] False \<open>snd t = CHR ''}''\<close> show ?thesis
          by (simp add: find_upt_Suc closes_from_0 closes_from_Suc option.map_comp comp_def del: upt_Suc)
      qed
    next
      case False
      with nopen Cons.IH [OF Cons.prems] show ?thesis
        by (simp add: find_upt_Suc closes_from_0 closes_from_Suc option.map_comp comp_def del: upt_Suc)
    qed
  qed
qed

lemma closes_from_zero: "closes_from 0 ts = closes_block ts"
  by (rule ext) (simp add: closes_from_def closes_block_def)

lemma first_close_spec:
  "(case first_close 0 False ts of Some r \<Rightarrow> r | None \<Rightarrow> n) = spec_block_end ts n"
  by (simp add: first_close_find closes_from_zero spec_block_end_def split: option.splits)

lemma java_chars_first_close:
  "first_close b st
       (outside_literals \<lparr>lex_in_string = a, lex_in_char = c, lex_escaped = e\<rparr>
          (map (Pair i) line @ ts)) =
     (case find_java_block_end_chars
        \<lparr>brace_count = b, started = st, in_string = a, in_char = c, escape_next = e\<rparr> line of
        Return _ \<Rightarrow> Some (i + 1)
      | Next s' \<Rightarrow> first_close (brace_count s') (started s')
          (outside_literals \<lparr>lex_in_string = in_string s', lex_in_char = in_char s',
             lex_escaped = escape_next s'\<rparr> ts))"
proof (induction line arbitrary: b st a c e)
  case Nil
  then show ?case by simp
next
  case (Cons x xs)
  show ?case
    by (simp add: Cons.IH)
qed


lemma java_lines_first_close:
  "find_java_block_end_lines i s ls =
     first_close (brace_count s) (started s)
       (outside_literals \<lparr>lex_in_string = in_string s, lex_in_char = in_char s,
          lex_escaped = escape_next s\<rparr> (tag_lines i ls))"
proof (induction ls arbitrary: i s)
  case Nil
  then show ?case by simp
next
  case (Cons l ls)
  obtain b st a c e where s: "s = \<lparr>brace_count = b, started = st, in_string = a,
      in_char = c, escape_next = e\<rparr>"
    by (cases s) auto
  show ?case
    unfolding s
    by (simp add: java_chars_first_close Cons.IH split: loop.splits)
qed

text \<open>
  Claim C2, as the code has it. The Java resolver returns the line at which the depth over
  the characters outside quoted literals returns to zero after having been positive
  (backslash escapes consumed as a unit), and the number of lines when the input ends
  first. The TypeScript/JavaScript resolver does the same over all characters: it counts
  braces inside quoted literals too.
\<close>

theorem block_end_resolution:
  "find_java_block_end lines start_line =
     spec_block_end (outside_literals lex_init (tag_lines start_line (drop start_line lines)))
       (length lines)
   \<and> find_block_end lines start_line =
     spec_block_end (tag_lines start_line (drop start_line lines)) (length lines)"
proof -
  have j: "find_java_block_end_lines start_line scan_init (drop start_line lines) =
      first_close 0 False
        (outside_literals lex_init (tag_lines start_line (drop start_line lines)))"
    by (simp add: java_lines_first_close scan_init_def lex_init_def)
  show ?thesis
    by (simp add: find_java_block_end_def find_block_end_def j
        find_block_end_lines_first_close first_close_spec)
qed

text \<open>
  The claim as stated fails for the TypeScript/JavaScript resolver: in
  \<^verbatim>\<open>function f() {\<close>, \<^verbatim>\<open>  return "}";\<close>, \<^verbatim>\<open>}\<close>, \<^verbatim>\<open>done()\<close>
  it stops at line 2, inside the string literal, while the depth outside literals
  returns to zero at line 3.
\<close>

theorem find_block_end_counts_quoted_brace:
  "find_block_end
     [''function f() {'', ''  return '' @ [CHR 0x22] @ ''}'' @ [CHR 0x22] @ '';'', ''}'',
      ''done()''] 0 = 2
   \<and> spec_block_end (outside_literals lex_init (tag_lines 0 (drop 0
     [''function f() {'', ''  return '' @ [CHR 0x22] @ ''}'' @ [CHR 0x22] @ '';'', ''}'',
      ''done()'']))) 4 = 3"
  by code_simp

section \<open>Single-file extraction: failure modes\<close>

lemma detect_language_truthy:
  "truthy (detect_language file_path) \<longleftrightarrow>
     lower (splitext_ext file_path) \<in> set (map fst SUPPORTED_EXTENSIONS)"
  by (simp add: detect_language_def SUPPORTED_EXTENSIONS_def truthy_def)

text \<open>
  Claim C7. Single-file extraction returns a result, raising nothing, in each of the
  three failure cases: a path that does not exist gives no nodes, no edges and the one
  error \<^verbatim>\<open>File not found\<close>; an existing path whose lower-cased extension is not
  in the table gives no nodes and the one error \<^verbatim>\<open>Unsupported file type\<close>; a
  supported file whose content does not decode gives no nodes and the one error
  \<^verbatim>\<open>Failed to read file\<close>.
\<close>

theorem extract_from_file_failures:
  "(\<not> os_path_exists w file_path \<longrightarrow>
      (\<exists>r. extract_from_file w file_path = Inr r \<and> nodes r = [] \<and> edges r = []
         \<and> errors r = [''File not found: '' @ file_path]))
   \<and> (os_path_exists w file_path
        \<and> lower (splitext_ext file_path) \<notin> set (map fst SUPPORTED_EXTENSIONS) \<longrightarrow>
      (\<exists>r. extract_from_file w file_path = Inr r \<and> nodes r = []
         \<and> errors r = [''Unsupported file type: '' @ file_path]))
   \<and> (os_path_exists w file_path
        \<and> lower (splitext_ext file_path) \<in> set (map fst SUPPORTED_EXTENSIONS)
        \<and> read_text_file w file_path = RaisesUnicodeDecode e \<longrightarrow>
      (\<exists>r. extract_from_file w file_path = Inr r \<and> nodes r = []
         \<and> errors r = [''Failed to read file: '' @ e]))"
  by (simp add: extract_from_file_def detect_language_truthy error_result_def)

theorem extract_from_file_failures_witness:
  "(\<exists>r. extract_from_file no_matches_world ''src/gone.py'' = Inr r \<and> nodes r = []
       \<and> edges r = [] \<and> errors r = [''File not found: src/gone.py''])
   \<and> (\<exists>r. extract_from_file no_matches_world ''src/notes.txt'' = Inr r \<and> nodes r = []
       \<and> errors r = [''Unsupported file type: src/notes.txt''])
   \<and> (\<exists>r. extract_from_file no_matches_world ''src/b.py'' = Inr r \<and> nodes r = []
       \<and> errors r = [''Failed to read file: invalid start byte''])"
proof -
  have ex: "\<not> os_path_exists no_matches_world ''src/gone.py''"
    "os_path_exists no_matches_world ''src/notes.txt''"
    "os_path_exists no_matches_world ''src/b.py''"
    "read_text_file no_matches_world ''src/b.py'' = RaisesUnicodeDecode ''invalid start byte''"
    by (simp_all add: no_matches_world_def)
  have ext: "lower (splitext_ext ''src/notes.txt'') = ''.txt''"
    "lower (splitext_ext ''src/b.py'') = ''.py''"
    by (simp_all add: lower_def lower_char_def splitext_ext_def basename_def Let_def)
  have sup: "''.txt'' \<notin> set (map fst SUPPORTED_EXTENSIONS)"
    "''.py'' \<in> set (map fst SUPPORTED_EXTENSIONS)"
    by (simp_all add: SUPPORTED_EXTENSIONS_def)
  show ?thesis
    using extract_from_file_failures [of no_matches_world "''src/gone.py''" "''x''"]
      extract_from_file_failures [of no_matches_world "''src/notes.txt''" "''x''"]
      extract_from_file_failures [of no_matches_world "''src/b.py''" "''invalid start byte''"]
      ex ext sup
    by simp
qed

section \<open>Directory extraction: proofs\<close>

lemma files_loop_entries:
  "files_loop extract w directory incremental file_hashes walk_root files st =
     entries_loop extract w directory incremental file_hashes (map (Pair walk_root) files) st"
  by (induction files arbitrary: st) (auto split: sum.splits)

lemma entries_loop_append:
  "entries_loop extract w directory incremental file_hashes (xs @ ys) st =
     (case entries_loop extract w directory incremental file_hashes xs st of
        Inl e \<Rightarrow> Inl e
      | Inr st' \<Rightarrow> entries_loop extract w directory incremental file_hashes ys st')"
  by (induction xs arbitrary: st) (auto split: sum.splits)

lemma walk_loop_entries:
  "walk_loop extract w directory incremental file_hashes ws st =
     entries_loop extract w directory incremental file_hashes (walk_entries ws) st"
proof (induction ws arbitrary: st)
  case Nil
  then show ?case by (simp add: walk_entries_def)
next
  case (Cons a ws)
  obtain walk_root files where a: "a = (walk_root, files)" by (cases a)
  have split: "walk_entries (a # ws) = map (Pair walk_root) files @ walk_entries ws"
    by (simp add: walk_entries_def a)
  show ?case
    unfolding split entries_loop_append
    by (simp add: a files_loop_entries Cons.IH split: sum.splits)
qed

lemma extract_from_directory_entries:
  "os_path_isdir w directory \<Longrightarrow>
   extract_from_directory w directory incremental file_hashes =
     entries_loop (extract_from_file w) w directory incremental
       (case file_hashes of None \<Rightarrow> Map.empty | Some h \<Rightarrow> h)
       (directory_entries w directory) empty_dir_result"
  by (simp add: extract_from_directory_def walk_loop_entries directory_entries_def)

lemma file_body_skip:
  assumes "lower (splitext_ext filename) \<in> set (map fst SUPPORTED_EXTENSIONS)"
    and "compute_file_hash w (path_join walk_root filename) = Inr h"
    and "file_hashes (os_path_relpath w (path_join walk_root filename) directory) = Some h"
  shows "file_body extract w directory True file_hashes walk_root filename st =
     Inr (st\<lparr>files_skipped := files_skipped st + 1,
            new_hashes := (new_hashes st)
              (os_path_relpath w (path_join walk_root filename) directory \<mapsto> h)\<rparr>)"
  using assms by (simp add: file_body_def Let_def)

lemma file_body_skip_sim:
  assumes "same_but_skip k a b"
  shows "rel_sum (=) (same_but_skip k)
     (file_body extract w directory incremental file_hashes walk_root filename a)
     (file_body extract w directory incremental file_hashes walk_root filename b)"
  using assms
  by (auto simp: file_body_def Let_def extract_and_record_def record_extraction_def
      same_but_skip_def split: sum.splits)

lemma entries_loop_skip_sim:
  assumes "same_but_skip k a b"
  shows "rel_sum (=) (same_but_skip k)
     (entries_loop extract w directory incremental file_hashes es a)
     (entries_loop extract w directory incremental file_hashes es b)"
  using assms
proof (induction es arbitrary: a b)
  case Nil
  then show ?case by simp
next
  case (Cons e es)
  have "rel_sum (=) (same_but_skip k)
      (file_body extract w directory incremental file_hashes (fst e) (snd e) a)
      (file_body extract w directory incremental file_hashes (fst e) (snd e) b)"
    by (rule file_body_skip_sim [OF Cons.prems])
  then show ?case
    by (cases rule: rel_sum.cases) (simp_all add: Cons.IH)
qed

lemma file_body_errors_sim:
  assumes "same_but_errors n errs a b"
  shows "rel_sum (=) (same_but_errors n errs)
     (file_body extract w directory incremental file_hashes walk_root filename a)
     (file_body extract w directory incremental file_hashes walk_root filename b)"
  using assms
  by (auto simp: file_body_def Let_def extract_and_record_def record_extraction_def
      same_but_errors_def split: sum.splits)

lemma entries_loop_errors_sim:
  assumes "same_but_errors n errs a b"
  shows "rel_sum (=) (same_but_errors n errs)
     (entries_loop extract w directory incremental file_hashes es a)
     (entries_loop extract w directory incremental file_hashes es b)"
  using assms
proof (induction es arbitrary: a b)
  case Nil
  then show ?case by simp
next
  case (Cons e es)
  have "rel_sum (=) (same_but_errors n errs)
      (file_body extract w directory incremental file_hashes (fst e) (snd e) a)
      (file_body extract w directory incremental file_hashes (fst e) (snd e) b)"
    by (rule file_body_errors_sim [OF Cons.prems])
  then show ?case
    by (cases rule: rel_sum.cases) (simp_all add: Cons.IH)
qed

lemma file_body_hash_untouched:
  assumes "file_body extract w directory incremental file_hashes walk_root filename st = Inr st'"
    and "os_path_relpath w (path_join walk_root filename) directory \<noteq> k"
  shows "new_hashes st' k = new_hashes st k"
  using assms
  by (auto simp: file_body_def Let_def extract_and_record_def record_extraction_def
      split: sum.splits if_splits)

lemma entries_loop_hash_untouched:
  assumes "entries_loop extract w directory incremental file_hashes es st = Inr st'"
    and "list_all (\<lambda>e. entry_rel_path w directory e \<noteq> k) es"
  shows "new_hashes st' k = new_hashes st k"
  using assms
proof (induction es arbitrary: st)
  case Nil
  then show ?case by simp
next
  case (Cons e es)
  from Cons.prems(1) obtain s1 where
    s1: "file_body extract w directory incremental file_hashes (fst e) (snd e) st = Inr s1"
    and rest: "entries_loop extract w directory incremental file_hashes es s1 = Inr st'"
    by (auto split: sum.splits)
  from Cons.prems(2) have "os_path_relpath w (path_join (fst e) (snd e)) directory \<noteq> k"
    and "list_all (\<lambda>e. entry_rel_path w directory e \<noteq> k) es"
    by (simp_all add: entry_rel_path_def)
  with file_body_hash_untouched [OF s1] Cons.IH [OF rest] show ?case by simp
qed

text \<open>
  Claim C1. In incremental mode, a supported file \<open>F\<close> of the walk whose relative
  path the previous-hash map binds to \<open>F\<close>'s current checksum is counted as skipped
  and its checksum is carried into the new table: the loop body only increments
  \<open>files_skipped\<close> and binds the relative path to the checksum, whatever the
  extractor would return (it is not called) and whatever the state. The returned batch
  has the nodes, edges, errors and processed count of the same run without \<open>F\<close>,
  and one more skipped file; \<open>F\<close>'s relative path is bound to the checksum in the
  returned table (no later entry of the walk having the same relative path).
\<close>

theorem incremental_skip_unchanged_file:
  assumes "os_path_isdir w directory"
    and "directory_entries w directory = pre @ (walk_root, filename) # post"
    and "lower (splitext_ext filename) \<in> set (map fst SUPPORTED_EXTENSIONS)"
    and "compute_file_hash w (path_join walk_root filename) = Inr h"
    and "file_hashes (entry_rel_path w directory (walk_root, filename)) = Some h"
    and "extract_from_directory w directory True (Some file_hashes) = Inr result"
  shows "(\<forall>extract st.
        file_body extract w directory True file_hashes walk_root filename st =
          Inr (st\<lparr>files_skipped := files_skipped st + 1,
                 new_hashes := (new_hashes st)
                   (entry_rel_path w directory (walk_root, filename) \<mapsto> h)\<rparr>))
     \<and> (\<exists>base. entries_loop (extract_from_file w) w directory True file_hashes (pre @ post)
            empty_dir_result = Inr base
          \<and> all_nodes result = all_nodes base \<and> all_edges result = all_edges base
          \<and> dir_errors result = dir_errors base
          \<and> files_processed result = files_processed base
          \<and> files_skipped result = files_skipped base + 1)
     \<and> (list_all (\<lambda>e. entry_rel_path w directory e
              \<noteq> entry_rel_path w directory (walk_root, filename)) post
          \<longrightarrow> new_hashes result (entry_rel_path w directory (walk_root, filename)) = Some h)"
proof -
  let ?k = "entry_rel_path w directory (walk_root, filename)"
  let ?loop = "entries_loop (extract_from_file w) w directory True file_hashes"
  have k: "?k = os_path_relpath w (path_join walk_root filename) directory"
    by (simp add: entry_rel_path_def)
  have step: "file_body ex w directory True file_hashes walk_root filename st =
      Inr (st\<lparr>files_skipped := files_skipped st + 1, new_hashes := (new_hashes st)(?k \<mapsto> h)\<rparr>)"
    for ex st
    unfolding k using assms(3,4,5) by (intro file_body_skip) (simp_all add: k)
  from assms(1,2,6) have run: "?loop (pre @ (walk_root, filename) # post) empty_dir_result
      = Inr result"
    by (simp add: extract_from_directory_entries)
  then obtain s1 where s1: "?loop pre empty_dir_result = Inr s1"
    and rest: "?loop ((walk_root, filename) # post) s1 = Inr result"
    by (auto simp: entries_loop_append split: sum.splits)
  let ?s2 = "s1\<lparr>files_skipped := files_skipped s1 + 1, new_hashes := (new_hashes s1)(?k \<mapsto> h)\<rparr>"
  from rest have post: "?loop post ?s2 = Inr result"
    by (simp add: step)
  have "same_but_skip ?k s1 ?s2"
    by (simp add: same_but_skip_def)
  then have "rel_sum (=) (same_but_skip ?k) (?loop post s1) (?loop post ?s2)"
    by (rule entries_loop_skip_sim)
  with post obtain base where base: "?loop post s1 = Inr base"
    and sim: "same_but_skip ?k base result"
    by (auto elim: rel_sum.cases)
  have "?loop (pre @ post) empty_dir_result = Inr base"
    by (simp add: entries_loop_append s1 base)
  with sim have second: "\<exists>base. ?loop (pre @ post) empty_dir_result = Inr base
      \<and> all_nodes result = all_nodes base \<and> all_edges result = all_edges base
      \<and> dir_errors result = dir_errors base
      \<and> files_processed result = files_processed base
      \<and> files_skipped result = files_skipped base + 1"
    by (auto simp: same_but_skip_def)
  have third: "new_hashes result ?k = Some h"
    if "list_all (\<lambda>e. entry_rel_path w directory e \<noteq> ?k) post"
    using entries_loop_hash_untouched [OF post that] by simp
  from step second third show ?thesis by blast
qed

lemma no_matches_entries:
  "directory_entries no_matches_world ''src'' =
     [(''src'', ''a.py''), (''src'', ''notes.txt''), (''src'', ''b.py'')]"
  by (simp add: directory_entries_def no_matches_world_def walk_entries_def IGNORED_DIRS_def)

lemma no_matches_ext:
  "lower (splitext_ext ''a.py'') = ''.py''" "lower (splitext_ext ''b.py'') = ''.py''"
  "lower (splitext_ext ''notes.txt'') = ''.txt''"
  by (simp_all add: lower_def lower_char_def splitext_ext_def basename_def Let_def)

lemma no_matches_rel:
  "entry_rel_path no_matches_world ''src'' (''src'', ''a.py'') = ''a.py''"
  "entry_rel_path no_matches_world ''src'' (''src'', ''b.py'') = ''b.py''"
  "entry_rel_path no_matches_world ''src'' (''src'', ''notes.txt'') = ''notes.txt''"
  by (simp_all add: entry_rel_path_def no_matches_world_def path_join_def endswith_def)

lemma no_matches_b_py:
  "extract_from_file no_matches_world ''src/b.py'' =
     Inr (error_result ''src/b.py'' [] ''Failed to read file: invalid start byte'')"
  by (simp add: extract_from_file_def no_matches_world_def detect_language_def
      SUPPORTED_EXTENSIONS_def truthy_def lower_def lower_char_def splitext_ext_def
      basename_def Let_def)

lemma no_matches_incremental_run:
  "extract_from_directory no_matches_world ''src'' True (Some a_py_hashes) =
     Inr \<lparr>all_nodes = [], all_edges = [], files_processed = 0, files_skipped = 1,
          dir_errors = [''Failed to read file: invalid start byte''],
          new_hashes = a_py_hashes\<rparr>"
proof -
  have isdir: "os_path_isdir no_matches_world ''src''"
    by (simp add: no_matches_world_def)
  have paths: "path_join ''src'' ''a.py'' = ''src/a.py''"
    "path_join ''src'' ''b.py'' = ''src/b.py''"
    by (simp_all add: path_join_def endswith_def)
  have rel: "os_path_relpath no_matches_world ''src/a.py'' ''src'' = ''a.py''"
    "os_path_relpath no_matches_world ''src/b.py'' ''src'' = ''b.py''"
    by (simp_all add: no_matches_world_def)
  have hash: "compute_file_hash no_matches_world ''src/a.py'' = Inr ''md5:x = 1''"
    "compute_file_hash no_matches_world ''src/b.py'' = Inr ''md5:??''"
    by (simp_all add: compute_file_hash_def no_matches_world_def)
  have upd: "Map.empty(''a.py'' \<mapsto> ''md5:x = 1'') = a_py_hashes"
    by (simp add: a_py_hashes_def)
  have prev: "a_py_hashes ''a.py'' = Some ''md5:x = 1''" "a_py_hashes ''b.py'' = None"
    by (simp_all add: a_py_hashes_def)
  show ?thesis
    by (simp add: extract_from_directory_entries [OF isdir] no_matches_entries file_body_def
        no_matches_ext SUPPORTED_EXTENSIONS_def paths rel hash prev upd empty_dir_result_def
        extract_and_record_def no_matches_b_py record_extraction_def error_result_def)
qed

theorem incremental_skip_unchanged_file_witness:
  "\<exists>result base.
     extract_from_directory no_matches_world ''src'' True (Some a_py_hashes) = Inr result
     \<and> entries_loop (extract_from_file no_matches_world) no_matches_world ''src'' True
         a_py_hashes [(''src'', ''notes.txt''), (''src'', ''b.py'')] empty_dir_result = Inr base
     \<and> all_nodes result = all_nodes base \<and> all_edges result = all_edges base
     \<and> files_skipped result = files_skipped base + 1
     \<and> new_hashes result ''a.py'' = Some ''md5:x = 1''"
proof -
  have isdir: "os_path_isdir no_matches_world ''src''"
    by (simp add: no_matches_world_def)
  have entries: "directory_entries no_matches_world ''src'' =
      [] @ (''src'', ''a.py'') # [(''src'', ''notes.txt''), (''src'', ''b.py'')]"
    by (simp add: no_matches_entries)
  have ext: "lower (splitext_ext ''a.py'') \<in> set (map fst SUPPORTED_EXTENSIONS)"
    by (simp add: no_matches_ext SUPPORTED_EXTENSIONS_def)
  have hash: "compute_file_hash no_matches_world (path_join ''src'' ''a.py'') =
      Inr ''md5:x = 1''"
    by (simp add: compute_file_hash_def no_matches_world_def path_join_def endswith_def)
  have prev: "a_py_hashes (entry_rel_path no_matches_world ''src'' (''src'', ''a.py'')) =
      Some ''md5:x = 1''"
    by (simp add: no_matches_rel a_py_hashes_def)
  have later: "list_all (\<lambda>e. entry_rel_path no_matches_world ''src'' e
      \<noteq> entry_rel_path no_matches_world ''src'' (''src'', ''a.py''))
      [(''src'', ''notes.txt''), (''src'', ''b.py'')]"
    by (simp add: no_matches_rel)
  from incremental_skip_unchanged_file [OF isdir entries ext hash prev
      no_matches_incremental_run] later
  show ?thesis
    by (auto simp: no_matches_rel no_matches_incremental_run)
qed

lemma file_body_failed:
  assumes "lower (splitext_ext filename) \<in> set (map fst SUPPORTED_EXTENSIONS)"
    and "incremental \<longrightarrow> (\<exists>h'. compute_file_hash w (path_join walk_root filename) = Inr h'
           \<and> file_hashes (os_path_relpath w (path_join walk_root filename) directory)
             \<noteq> Some h')"
    and "ex (path_join walk_root filename) = Inr r"
    and "errors r \<noteq> []"
  shows "file_body ex w directory incremental file_hashes walk_root filename st =
     Inr (st\<lparr>dir_errors := dir_errors st @ errors r\<rparr>)"
  using assms
  by (auto simp: file_body_def Let_def extract_and_record_def record_extraction_def)

lemma file_body_not_skipped:
  assumes "lower (splitext_ext filename) \<in> set (map fst SUPPORTED_EXTENSIONS)"
    and "compute_file_hash w (path_join walk_root filename) = Inr h'"
    and "table (os_path_relpath w (path_join walk_root filename) directory) = None"
  shows "file_body ex w directory True table walk_root filename st =
     extract_and_record ex (path_join walk_root filename)
       (os_path_relpath w (path_join walk_root filename) directory) st"
  using assms by (simp add: file_body_def Let_def)

text \<open>
  Claim C10. A supported file \<open>F\<close> of the walk that is not skipped and whose
  single-file extraction returns a result with a non-empty error list only adds these
  errors to the batch: the loop body leaves nodes, edges, both counters and the hash table
  as they are. The returned batch has the nodes, edges, counters and hash table of the
  same run without \<open>F\<close>; the returned table has no entry for \<open>F\<close>'s relative
  path (no other entry of the walk having that relative path), so an incremental run
  with that table does not skip \<open>F\<close>: it calls the extractor on it again.
\<close>

theorem failed_file_contributes_nothing:
  assumes "os_path_isdir w directory"
    and "directory_entries w directory = pre @ (walk_root, filename) # post"
    and "lower (splitext_ext filename) \<in> set (map fst SUPPORTED_EXTENSIONS)"
    and "incremental \<longrightarrow> (\<exists>h'. compute_file_hash w (path_join walk_root filename) = Inr h'
           \<and> file_hashes (entry_rel_path w directory (walk_root, filename)) \<noteq> Some h')"
    and "extract_from_file w (path_join walk_root filename) = Inr r"
    and "errors r \<noteq> []"
    and "extract_from_directory w directory incremental (Some file_hashes) = Inr result"
  shows "(\<forall>st. file_body (extract_from_file w) w directory incremental file_hashes walk_root
            filename st = Inr (st\<lparr>dir_errors := dir_errors st @ errors r\<rparr>))
     \<and> (\<exists>base. entries_loop (extract_from_file w) w directory incremental file_hashes
            (pre @ post) empty_dir_result = Inr base
          \<and> all_nodes result = all_nodes base \<and> all_edges result = all_edges base
          \<and> files_processed result = files_processed base
          \<and> files_skipped result = files_skipped base
          \<and> new_hashes result = new_hashes base)
     \<and> (list_all (\<lambda>e. entry_rel_path w directory e
              \<noteq> entry_rel_path w directory (walk_root, filename)) (pre @ post)
          \<longrightarrow> new_hashes result (entry_rel_path w directory (walk_root, filename)) = None
            \<and> (\<forall>ex h' st. compute_file_hash w (path_join walk_root filename) = Inr h' \<longrightarrow>
                 file_body ex w directory True (new_hashes result) walk_root filename st =
                   extract_and_record ex (path_join walk_root filename)
                     (entry_rel_path w directory (walk_root, filename)) st))"
proof -
  let ?k = "entry_rel_path w directory (walk_root, filename)"
  let ?loop = "entries_loop (extract_from_file w) w directory incremental file_hashes"
  have k: "?k = os_path_relpath w (path_join walk_root filename) directory"
    by (simp add: entry_rel_path_def)
  have step: "file_body (extract_from_file w) w directory incremental file_hashes walk_root
      filename st = Inr (st\<lparr>dir_errors := dir_errors st @ errors r\<rparr>)" for st
    using assms(3,4,5,6) by (intro file_body_failed) (simp_all add: k)
  from assms(1,2,7) have "?loop (pre @ (walk_root, filename) # post) empty_dir_result
      = Inr result"
    by (simp add: extract_from_directory_entries)
  then obtain s1 where s1: "?loop pre empty_dir_result = Inr s1"
    and rest: "?loop ((walk_root, filename) # post) s1 = Inr result"
    by (auto simp: entries_loop_append split: sum.splits)
  let ?s2 = "s1\<lparr>dir_errors := dir_errors s1 @ errors r\<rparr>"
  from rest have post: "?loop post ?s2 = Inr result"
    by (simp add: step)
  have "same_but_errors (length (dir_errors s1)) (errors r) s1 ?s2"
    by (simp add: same_but_errors_def)
  then have "rel_sum (=) (same_but_errors (length (dir_errors s1)) (errors r))
      (?loop post s1) (?loop post ?s2)"
    by (rule entries_loop_errors_sim)
  with post obtain base where base: "?loop post s1 = Inr base"
    and sim: "same_but_errors (length (dir_errors s1)) (errors r) base result"
    by (auto elim: rel_sum.cases)
  have whole: "?loop (pre @ post) empty_dir_result = Inr base"
    by (simp add: entries_loop_append s1 base)
  with sim have second: "\<exists>base. ?loop (pre @ post) empty_dir_result = Inr base
      \<and> all_nodes result = all_nodes base \<and> all_edges result = all_edges base
      \<and> files_processed result = files_processed base
      \<and> files_skipped result = files_skipped base
      \<and> new_hashes result = new_hashes base"
    by (auto simp: same_but_errors_def)
  have third: "new_hashes result ?k = None
      \<and> (\<forall>ex h' st. compute_file_hash w (path_join walk_root filename) = Inr h' \<longrightarrow>
           file_body ex w directory True (new_hashes result) walk_root filename st =
             extract_and_record ex (path_join walk_root filename) ?k st)"
    if distinct: "list_all (\<lambda>e. entry_rel_path w directory e \<noteq> ?k) (pre @ post)"
  proof -
    from entries_loop_hash_untouched [OF whole distinct]
    have "new_hashes base ?k = None"
      by (simp add: empty_dir_result_def)
    with sim have none: "new_hashes result ?k = None"
      by (simp add: same_but_errors_def)
    have "file_body ex w directory True (new_hashes result) walk_root filename st =
        extract_and_record ex (path_join walk_root filename) ?k st"
      if "compute_file_hash w (path_join walk_root filename) = Inr h'" for ex h' st
      unfolding k using assms(3) that none [unfolded k] by (rule file_body_not_skipped)
    with none show ?thesis by blast
  qed
  from step second third show ?thesis by blast
qed

theorem failed_file_contributes_nothing_witness:
  "\<exists>result base.
     extract_from_directory no_matches_world ''src'' True (Some a_py_hashes) = Inr result
     \<and> errors (error_result ''src/b.py'' [] ''Failed to read file: invalid start byte'') \<noteq> []
     \<and> entries_loop (extract_from_file no_matches_world) no_matches_world ''src'' True
         a_py_hashes [(''src'', ''a.py''), (''src'', ''notes.txt'')] empty_dir_result = Inr base
     \<and> all_nodes result = all_nodes base \<and> all_edges result = all_edges base
     \<and> files_processed result = files_processed base
     \<and> files_skipped result = files_skipped base
     \<and> new_hashes result ''b.py'' = None"
proof -
  have isdir: "os_path_isdir no_matches_world ''src''"
    by (simp add: no_matches_world_def)
  have entries: "directory_entries no_matches_world ''src'' =
      [(''src'', ''a.py''), (''src'', ''notes.txt'')] @ (''src'', ''b.py'') # []"
    by (simp add: no_matches_entries)
  have ext: "lower (splitext_ext ''b.py'') \<in> set (map fst SUPPORTED_EXTENSIONS)"
    by (simp add: no_matches_ext SUPPORTED_EXTENSIONS_def)
  have path: "path_join ''src'' ''b.py'' = ''src/b.py''"
    by (simp add: path_join_def endswith_def)
  have fresh: "True \<longrightarrow> (\<exists>h'. compute_file_hash no_matches_world (path_join ''src'' ''b.py'')
      = Inr h' \<and> a_py_hashes (entry_rel_path no_matches_world ''src'' (''src'', ''b.py''))
        \<noteq> Some h')"
    by (simp add: path compute_file_hash_def no_matches_world_def no_matches_rel
        a_py_hashes_def)
  have failed: "extract_from_file no_matches_world (path_join ''src'' ''b.py'') =
      Inr (error_result ''src/b.py'' [] ''Failed to read file: invalid start byte'')"
    by (simp add: path no_matches_b_py)
  have errs: "errors (error_result ''src/b.py'' [] ''Failed to read file: invalid start byte'')
      \<noteq> []"
    by (simp add: error_result_def)
  have others: "list_all (\<lambda>e. entry_rel_path no_matches_world ''src'' e
      \<noteq> entry_rel_path no_matches_world ''src'' (''src'', ''b.py''))
      ([(''src'', ''a.py''), (''src'', ''notes.txt'')] @ [])"
    by (simp add: no_matches_rel)
  from failed_file_contributes_nothing [OF isdir entries ext fresh failed errs
      no_matches_incremental_run] others errs
  show ?thesis
    by (auto simp: no_matches_rel no_matches_incremental_run)
qed

end
